theory Spec2Isabelle
  imports Complex_Main "HOL-Library.Sublist"
begin

section \<open>Python strings, lists and exceptions\<close>

text \<open>
  The program is \<^verbatim>\<open>gpt_poker_server.py\<close>: a prompt builder
  (\<^verbatim>\<open>build_gto_prompt\<close>) and one request handler (\<^verbatim>\<open>gto_tip\<close>).
  A Python \<^verbatim>\<open>str\<close> is modelled as a \<^typ>\<open>string\<close> whose characters are the
  code points below 256; a raised exception is the \<open>Inl\<close> of a sum.
\<close>

datatype error =
    AttributeError
  | IndexError
  | KeyError
  | TypeError
  | UnboundLocalError
  | BadRequest
  | ConnectionError
  | HTTPError
  | JSONDecodeError

text \<open>\<^verbatim>\<open>s[-1]\<close>: the last character, IndexError on the empty string.\<close>

fun str_last :: "string \<Rightarrow> error + char" where
  "str_last [] = Inl IndexError"
| "str_last (c # cs) = Inr (last (c # cs))"

text \<open>\<^verbatim>\<open>sep.join(xs)\<close>\<close>

fun join :: "string \<Rightarrow> string list \<Rightarrow> string" where
  "join sep [] = []"
| "join sep [x] = x"
| "join sep (x # y # ys) = x @ sep @ join sep (y # ys)"

text \<open>\<^verbatim>\<open>str(n)\<close> for a Python int: decimal digits, a minus sign when negative.\<close>

definition digit :: "nat \<Rightarrow> char" where
  "digit d = char_of (48 + d)"

fun str_nat :: "nat \<Rightarrow> string" where
  "str_nat n = (if n < 10 then [digit n] else str_nat (n div 10) @ [digit (n mod 10)])"

declare str_nat.simps [simp del]

definition str_int :: "int \<Rightarrow> string" where
  "str_int i = (if i < 0 then CHR ''-'' # str_nat (nat (- i)) else str_nat (nat i))"

text \<open>
  \<^verbatim>\<open>str.strip()\<close> removes leading and trailing whitespace. Among the code points
  below 256 Python counts as whitespace: 9 to 13, 28 to 32, 133 and 160.
\<close>

definition is_space :: "char \<Rightarrow> bool" where
  "is_space c =
     (let n = (of_char c :: nat)
      in (9 \<le> n \<and> n \<le> 13) \<or> (28 \<le> n \<and> n \<le> 32) \<or> n = 133 \<or> n = 160)"

definition lstrip :: "string \<Rightarrow> string" where
  "lstrip s = dropWhile is_space s"

definition rstrip :: "string \<Rightarrow> string" where
  "rstrip s = rev (dropWhile is_space (rev s))"

definition strip :: "string \<Rightarrow> string" where
  "strip s = rstrip (lstrip s)"

text \<open>
  \<^verbatim>\<open>s.replace(old, new)\<close>: every non-overlapping occurrence of \<open>old\<close>, found
  from the left, is replaced; an empty \<open>old\<close> matches before every character and at
  the end.
\<close>

fun replace :: "string \<Rightarrow> string \<Rightarrow> string \<Rightarrow> string" where
  "replace old new [] = (if old = [] then new else [])"
| "replace old new (c # cs) =
     (if old = [] then new @ c # replace old new cs
      else if prefix old (c # cs) then new @ replace old new (drop (length old) (c # cs))
      else c # replace old new cs)"

text \<open>
  A dict keeps its keys in insertion order: an association list with distinct keys.
  \<^verbatim>\<open>d.get(k, default)\<close> and \<^verbatim>\<open>d[k] = v\<close>.
\<close>

fun dict_get :: "('k \<times> 'v) list \<Rightarrow> 'k \<Rightarrow> 'v \<Rightarrow> 'v" where
  "dict_get [] k dflt = dflt"
| "dict_get ((k', v') # d) k dflt = (if k' = k then v' else dict_get d k dflt)"

fun dict_set :: "('k \<times> 'v) list \<Rightarrow> 'k \<Rightarrow> 'v \<Rightarrow> ('k \<times> 'v) list" where
  "dict_set [] k v = [(k, v)]"
| "dict_set ((k', v') # d) k v = (if k' = k then (k', v) # d else (k', v') # dict_set d k v)"

text \<open>\<^verbatim>\<open>max(xs, default=d)\<close>\<close>

fun max_default :: "int list \<Rightarrow> int \<Rightarrow> int" where
  "max_default [] d = d"
| "max_default (x # xs) d = fold max xs x"

section \<open>The game state\<close>

text \<open>
  The request's JSON object, with the fields typed as the data model has them. A field
  is \<open>None\<close> when its key is absent from the object, so that \<^verbatim>\<open>data.get\<close>
  returns its default. Numbers are Python ints.
\<close>

record game_state =
  hand :: "string list option"
  community :: "string list option"
  opponent_actions :: "string list option"
  pot :: "int option"
  chips :: "int option"
  stage :: "string option"
  position :: "string option"
  current_bet :: "int option"
  num_players :: "int option"

text \<open>\<^verbatim>\<open>data.get(key, default)\<close> on a field of the record.\<close>

definition get_or :: "'a option \<Rightarrow> 'a \<Rightarrow> 'a" where
  "get_or field dflt = (case field of None \<Rightarrow> dflt | Some v \<Rightarrow> v)"

text \<open>\<^verbatim>\<open>xs or default\<close> for a list: the default when the list is empty.\<close>

definition list_or :: "'a list \<Rightarrow> 'a list \<Rightarrow> 'a list" where
  "list_or xs dflt = (if xs = [] then dflt else xs)"

section \<open>build_gto_prompt\<close>

subsection \<open>Analyze player's hand (lines 37 to 59)\<close>

definition rank_values :: "(string \<times> int) list" where
  "rank_values =
     [(''2'', 2), (''3'', 3), (''4'', 4), (''5'', 5), (''6'', 6), (''7'', 7), (''8'', 8),
      (''9'', 9), (''10'', 10), (''J'', 11), (''Q'', 12), (''K'', 13), (''A'', 14)]"

text \<open>
  The local variables the analysis leaves behind. \<open>is_connected\<close> is assigned only
  inside the branch of line 40: \<open>None\<close> is the unbound name.
\<close>

record hand_facts =
  hand_type :: string
  hand_strength :: string
  is_connected :: "bool option"

definition analyze_hand :: "string list \<Rightarrow> error + hand_facts" where
  "analyze_hand hnd =
     (case hnd of
        [] \<Rightarrow> Inl IndexError
      | h0 # _ \<Rightarrow>
          if length hnd = 2 \<and> h0 \<noteq> ''unknown'' then
            (let rank1 = butlast (hnd ! 0); rank2 = butlast (hnd ! 1)
             in case str_last (hnd ! 0) of
                  Inl e \<Rightarrow> Inl e
                | Inr suit1 \<Rightarrow>
                    (case str_last (hnd ! 1) of
                       Inl e \<Rightarrow> Inl e
                     | Inr suit2 \<Rightarrow>
                         (let is_suited = (suit1 = suit2);
                              r1 = dict_get rank_values rank1 0;
                              r2 = dict_get rank_values rank2 0;
                              gap = \<bar>r1 - r2\<bar>;
                              conn = (gap \<le> 2);
                              high_rank = max r1 r2
                          in Inr \<lparr>hand_type = (if is_suited then ''suited'' else ''offsuit''),
                                   hand_strength =
                                     (if high_rank \<ge> 12 \<or> (is_suited \<and> conn)
                                      then ''strong''
                                      else if high_rank \<ge> 9 \<or> (conn \<and> gap \<le> 1)
                                      then ''medium''
                                      else ''weak''),
                                   is_connected = Some conn\<rparr>)))
          else Inr \<lparr>hand_type = ''unknown'', hand_strength = ''unknown'',
                    is_connected = None\<rparr>)"

definition hand_str :: "string list \<Rightarrow> error + string" where
  "hand_str hnd =
     (case hnd of
        [] \<Rightarrow> Inl IndexError
      | h0 # _ \<Rightarrow> Inr (if h0 \<noteq> ''unknown'' then join '', '' hnd else ''unknown''))"

subsection \<open>Analyze community cards and flush potential (lines 62 to 76)\<close>

definition community_str :: "string list \<Rightarrow> string" where
  "community_str comm = (if comm \<noteq> [] then join '', '' comm else ''none'')"

text \<open>The loop of lines 67 to 69 over \<^verbatim>\<open>all_cards\<close>, threading \<^verbatim>\<open>suit_counts\<close>.\<close>

fun count_suits :: "string list \<Rightarrow> (char \<times> int) list \<Rightarrow> error + (char \<times> int) list" where
  "count_suits [] suit_counts = Inr suit_counts"
| "count_suits (tok # toks) suit_counts =
     (case str_last tok of
        Inl e \<Rightarrow> Inl e
      | Inr suit \<Rightarrow> count_suits toks (dict_set suit_counts suit (dict_get suit_counts suit 0 + 1)))"

text \<open>
  Line 71: the first suit, in the dict's order, whose count is the maximum, when that
  maximum is at least 3; \<open>None\<close> otherwise.
\<close>

definition flush_suit_of :: "(char \<times> int) list \<Rightarrow> int \<Rightarrow> error + char option" where
  "flush_suit_of suit_counts max_suit_count =
     (if max_suit_count \<ge> 3 then
        (case filter (\<lambda>(s, count). count = max_suit_count) suit_counts of
           [] \<Rightarrow> Inl IndexError
         | (s, _) # _ \<Rightarrow> Inr (Some s))
      else Inr None)"

text \<open>
  The value of \<^verbatim>\<open>flush_potential\<close> after line 76. A suit is a one-character
  string, hence truthy; \<^verbatim>\<open>or\<close> does not evaluate its right operand when the
  left one holds.
\<close>

definition flush_potential :: "string list \<Rightarrow> string list \<Rightarrow> error + string" where
  "flush_potential hnd comm =
     (if comm \<noteq> [] \<and> length hnd = 2 \<and> hnd ! 0 \<noteq> ''unknown'' then
        (case count_suits (hnd @ comm) [] of
           Inl e \<Rightarrow> Inl e
         | Inr suit_counts \<Rightarrow>
             (let max_suit_count = max_default (map snd suit_counts) 0
              in case flush_suit_of suit_counts max_suit_count of
                   Inl e \<Rightarrow> Inl e
                 | Inr None \<Rightarrow> Inr ''none''
                 | Inr (Some flush_suit) \<Rightarrow>
                     (let fp =
                        (if max_suit_count \<ge> 4
                         then ''flush draw with '' @ str_int max_suit_count @ '' '' @
                              [flush_suit] @ '' cards''
                         else ''none'')
                      in case str_last (hnd ! 0) of
                           Inl e \<Rightarrow> Inl e
                         | Inr s0 \<Rightarrow>
                             if s0 = flush_suit then Inr (''you have a '' @ fp)
                             else (case str_last (hnd ! 1) of
                                     Inl e \<Rightarrow> Inl e
                                   | Inr s1 \<Rightarrow>
                                       if s1 = flush_suit then Inr (''you have a '' @ fp)
                                       else Inr fp))))
      else Inr ''none'')"

subsection \<open>Format opponent actions (lines 79 to 85)\<close>

text \<open>
  The loop over \<^verbatim>\<open>enumerate(opponent_actions)\<close>: \<open>i\<close> is the index of the
  next entry, \<open>formatted_actions\<close> the list built so far. A string is truthy when it
  is not empty.
\<close>

fun format_actions :: "nat \<Rightarrow> string list \<Rightarrow> string list \<Rightarrow> string list" where
  "format_actions i [] formatted_actions = formatted_actions"
| "format_actions i (action # rest) formatted_actions =
     format_actions (Suc i) rest
       (if action \<noteq> []
        then formatted_actions @ [''Player '' @ str_int (int i) @ '': '' @ action]
        else formatted_actions)"

definition opponent_actions_str :: "string list \<Rightarrow> string" where
  "opponent_actions_str acts =
     (if acts \<noteq> [] then
        (let formatted_actions = format_actions 0 acts []
         in if formatted_actions \<noteq> [] then join ''; '' formatted_actions else ''None'')
      else ''None'')"

subsection \<open>Build prompt (lines 26 to 34 and 88 to 106)\<close>

definition nl :: char where
  "nl = CHR 0x0A"

text \<open>
  The f-string of lines 88 to 105; a \<open>field\<close> is the formatted text of one of its
  replacement fields.
\<close>

type_synonym field = string

definition prompt_template ::
  "field \<Rightarrow> field \<Rightarrow> field \<Rightarrow> field \<Rightarrow> field \<Rightarrow> field \<Rightarrow> field \<Rightarrow> field \<Rightarrow>
   field \<Rightarrow> field \<Rightarrow> field \<Rightarrow> field \<Rightarrow> field \<Rightarrow> string" where
  "prompt_template players hs htype hstrength connector cs fp stg pos pt chps oas bet =
     join [nl]
       [''/no_think'',
        ''You are a GTO (Game Theory Optimal) poker coach for No-Limit Hold'em with '' @
          players @ '' players.'',
        ''Game state:'',
        ''- Your hand: '' @ hs @ '' ('' @ htype @ '', '' @ hstrength @ '' '' @ connector @ '')'',
        ''- Community cards: '' @ cs @ '' ('' @ fp @ '')'',
        ''- Stage: '' @ stg,
        ''- Position: '' @ pos,
        ''- Pot size: '' @ pt,
        ''- Your chips: '' @ chps,
        ''- Opponent actions: '' @ oas,
        ''- Current bet to call: '' @ bet,
        ''- Number of players: '' @ players,
        ''Provide a **short, single-sentence tip** on the best play: bet, call, raise, or fold.'',
        ''Calculate pot odds and explain how they apply to the current scenario.'',
        ''Explain the reason for the tip, considering hand strength, position, and number of opponents.'',
        ''If raising, specify how you determined the raise amount.'',
        ''Explain any poker jargon used in simple terms.'',
        ''/no_think'']"

text \<open>
  The whole function. The defaults of lines 26 to 34 come first; the hand and the flush
  analysis may raise IndexError on an empty card token; the template reads
  \<^verbatim>\<open>is_connected\<close> after the other hand fields, and raises UnboundLocalError
  when line 52 never ran.
\<close>

definition build_gto_prompt :: "game_state \<Rightarrow> error + string" where
  "build_gto_prompt data =
     (let hnd = list_or (get_or (hand data) []) [''unknown'', ''unknown''];
          comm = list_or (get_or (community data) []) [];
          acts = list_or (get_or (opponent_actions data) []) [];
          pt = get_or (pot data) 0;
          chps = get_or (chips data) 0;
          stg = get_or (stage data) ''Unknown'';
          pos = get_or (position data) ''SB'';
          bet = get_or (current_bet data) 0;
          players = get_or (num_players data) 2
      in case hand_str hnd of
           Inl e \<Rightarrow> Inl e
         | Inr hs \<Rightarrow>
             (case analyze_hand hnd of
                Inl e \<Rightarrow> Inl e
              | Inr facts \<Rightarrow>
                  (case flush_potential hnd comm of
                     Inl e \<Rightarrow> Inl e
                   | Inr fp \<Rightarrow>
                       (case is_connected facts of
                          None \<Rightarrow> Inl UnboundLocalError
                        | Some conn \<Rightarrow>
                            Inr (strip
                              (prompt_template (str_int players) hs (hand_type facts)
                                 (hand_strength facts)
                                 (if conn then ''connector'' else ''non-connector'')
                                 (community_str comm) fp stg pos (str_int pt) (str_int chps)
                                 (opponent_actions_str acts) (str_int bet)))))))"

section \<open>The route /gto_tip\<close>

subsection \<open>JSON values and the backend's reply\<close>

datatype json_value =
    JNull
  | JBool bool
  | JNum rat
  | JStr string
  | JArr "json_value list"
  | JObj "(string \<times> json_value) list"

text \<open>
  \<^verbatim>\<open>v.get(key, default)\<close>: only a dict has the method. \<^verbatim>\<open>v[0]\<close>: the first
  element of a list or the first character of a string, IndexError when empty,
  KeyError on a dict (its keys are strings), TypeError on the rest.
  \<^verbatim>\<open>v.strip()\<close>: only a string has the method.
\<close>

fun py_get :: "json_value \<Rightarrow> string \<Rightarrow> json_value \<Rightarrow> error + json_value" where
  "py_get (JObj kvs) key dflt = Inr (dict_get kvs key dflt)"
| "py_get _ key dflt = Inl AttributeError"

fun py_item0 :: "json_value \<Rightarrow> error + json_value" where
  "py_item0 (JArr []) = Inl IndexError"
| "py_item0 (JArr (x # xs)) = Inr x"
| "py_item0 (JStr []) = Inl IndexError"
| "py_item0 (JStr (c # cs)) = Inr (JStr [c])"
| "py_item0 (JObj kvs) = Inl KeyError"
| "py_item0 _ = Inl TypeError"

fun py_strip :: "json_value \<Rightarrow> error + string" where
  "py_strip (JStr s) = Inr (strip s)"
| "py_strip _ = Inl AttributeError"

text \<open>
  The payload of line 118, and what the \<^verbatim>\<open>requests\<close> library hands back: a
  response object whose \<^verbatim>\<open>raise_for_status()\<close> and \<^verbatim>\<open>json()\<close> each return or
  raise.
\<close>

record payload =
  model :: string
  prompt :: string
  max_tokens :: int
  temperature :: rat

record http_response =
  raise_for_status :: "error + unit"
  json :: "error + json_value"

definition GPT_MODEL :: string where
  "GPT_MODEL = ''Qwen3-14B-Q6_K.gguf''"

text \<open>The payload that lines 118 to 123 build for a prompt.\<close>

definition payload_of :: "string \<Rightarrow> payload" where
  "payload_of p = \<lparr>model = GPT_MODEL, prompt = p, max_tokens = 500, temperature = 3 / 10\<rparr>"

text \<open>
  The response object of a reply with a given status code. The library's
  \<^verbatim>\<open>raise_for_status\<close> raises HTTPError for a status code from 400 to 599 and
  returns for every other code, whether or not the code is a 2xx one; \<^verbatim>\<open>json()\<close>
  returns the parsed body or raises on a body that is not JSON.
\<close>

definition http_reply :: "nat \<Rightarrow> error + json_value \<Rightarrow> http_response" where
  "http_reply status_code body =
     \<lparr>raise_for_status = (if 400 \<le> status_code \<and> status_code < 600 then Inl HTTPError else Inr ()),
      json = body\<rparr>"

text \<open>A backend that answers every payload with the same status code and body.\<close>

definition fixed_backend :: "nat \<Rightarrow> error + json_value \<Rightarrow> payload \<Rightarrow> error + http_response" where
  "fixed_backend status_code body pl = Inr (http_reply status_code body)"

text \<open>
  The request \<^verbatim>\<open>{"hand": ["As", "Ks"]}\<close>, every other key absent.
\<close>

definition suited_state :: game_state where
  "suited_state =
     \<lparr>hand = Some [''As'', ''Ks''], community = None, opponent_actions = None, pot = None,
      chips = None, stage = None, position = None, current_bet = None, num_players = None\<rparr>"

text \<open>The reply body of the documented shape: one choice with a text.\<close>

definition reply_body :: "string \<Rightarrow> json_value" where
  "reply_body text = JObj [(''choices'', JArr [JObj [(''text'', JStr text)]])]"

text \<open>The body of the request, as \<^verbatim>\<open>request.get_json()\<close> parses it.\<close>

datatype request_json = NotADict | Dict game_state

subsection \<open>Extracting and cleaning the tip (lines 130 to 135)\<close>

definition extract_tip :: "json_value \<Rightarrow> error + string" where
  "extract_tip raw_output =
     (case py_get raw_output ''choices'' (JArr [JObj []]) of
        Inl e \<Rightarrow> Inl e
      | Inr choices \<Rightarrow>
          (case py_item0 choices of
             Inl e \<Rightarrow> Inl e
           | Inr choice \<Rightarrow>
               (case py_get choice ''text'' (JStr []) of
                  Inl e \<Rightarrow> Inl e
                | Inr text \<Rightarrow> py_strip text)))"

definition tags_to_remove :: "string list" where
  "tags_to_remove = [''/think'', ''</think>'', ''/no_think'', ''<'', ''>'']"

text \<open>The loop of lines 134 and 135.\<close>

fun remove_tags :: "string list \<Rightarrow> string \<Rightarrow> string" where
  "remove_tags [] tip = tip"
| "remove_tags (tag # tags) tip = remove_tags tags (strip (replace tag [] tip))"

text \<open>Lines 131 to 135, on the text that line 130 extracted and stripped.\<close>

definition clean_tip :: "string \<Rightarrow> string" where
  "clean_tip tip =
     remove_tags tags_to_remove (if tip = [] then ''No tip generated.'' else tip)"

text \<open>Lines 130 to 135 together: from the parsed reply to the cleaned tip.\<close>

definition tip_of_response :: "json_value \<Rightarrow> error + string" where
  "tip_of_response raw_output =
     (case extract_tip raw_output of
        Inl e \<Rightarrow> Inl e
      | Inr tip \<Rightarrow> Inr (clean_tip tip))"

subsection \<open>The handler (lines 112 to 140)\<close>

text \<open>
  The body of the \<^verbatim>\<open>try\<close>. \<open>get_json\<close> is the outcome of
  \<^verbatim>\<open>request.get_json()\<close>, \<open>post\<close> the backend as \<^verbatim>\<open>requests.post\<close>
  reaches it. A body that is not a dict has no \<^verbatim>\<open>get\<close>: line 26 raises
  AttributeError. The logging calls change nothing the caller sees.
\<close>

definition gto_tip_try ::
  "error + request_json \<Rightarrow> (payload \<Rightarrow> error + http_response) \<Rightarrow> error + string" where
  "gto_tip_try get_json post =
     (case get_json of
        Inl e \<Rightarrow> Inl e
      | Inr NotADict \<Rightarrow> Inl AttributeError
      | Inr (Dict data) \<Rightarrow>
          (case build_gto_prompt data of
             Inl e \<Rightarrow> Inl e
           | Inr p \<Rightarrow>
               (case post \<lparr>model = GPT_MODEL, prompt = p, max_tokens = 500,
                            temperature = 3 / 10\<rparr> of
                  Inl e \<Rightarrow> Inl e
                | Inr response \<Rightarrow>
                    (case raise_for_status response of
                       Inl e \<Rightarrow> Inl e
                     | Inr _ \<Rightarrow>
                         (case json response of
                            Inl e \<Rightarrow> Inl e
                          | Inr raw_output \<Rightarrow> tip_of_response raw_output)))))"

text \<open>
  The handler: the status code and the JSON object of the reply.
  \<^verbatim>\<open>except Exception\<close> catches every error of the body.
\<close>

definition gto_tip ::
  "error + request_json \<Rightarrow> (payload \<Rightarrow> error + http_response) \<Rightarrow> nat \<times> (string \<times> string) list"
  where
  "gto_tip get_json post =
     (case gto_tip_try get_json post of
        Inr tip \<Rightarrow> (200, [(''gto_tip'', tip)])
      | Inl e \<Rightarrow> (500, [(''tip'', ''Error generating tip'')]))"

section \<open>The specification's reading of the rules\<close>

text \<open>
  A card token is a rank of the table followed by one suit character; its rank value
  is that of the token without its last character.
\<close>

definition card_token :: "string \<Rightarrow> bool" where
  "card_token c = (c \<noteq> [] \<and> butlast c \<in> set (map fst rank_values))"

definition spec_rank :: "string \<Rightarrow> int" where
  "spec_rank c = (case map_of rank_values (butlast c) of None \<Rightarrow> 0 | Some v \<Rightarrow> v)"

text \<open>
  The strength rule as the specification words it: strong when the high rank is at
  least 12 or the hand is suited with a gap of at most 2; otherwise medium when the high
  rank is at least 9 or the gap is at most 1; otherwise weak.
\<close>

definition spec_strength :: "int \<Rightarrow> int \<Rightarrow> bool \<Rightarrow> string" where
  "spec_strength rank1 rank2 suited =
     (let gap = \<bar>rank1 - rank2\<bar>; high = max rank1 rank2
      in if high \<ge> 12 \<or> (suited \<and> gap \<le> 2) then ''strong''
         else if high \<ge> 9 \<or> gap \<le> 1 then ''medium''
         else ''weak'')"

text \<open>
  The opponent actions as the specification words them: one entry
  \<open>Player index: action\<close> for each non-empty action, under its original index, the
  entries joined by \<open>; \<close>, and \<open>None\<close> when there is no entry.
\<close>

definition spec_opponent_actions :: "string list \<Rightarrow> string" where
  "spec_opponent_actions acts =
     (let entries =
        map (\<lambda>(i, action). ''Player '' @ str_int (int i) @ '': '' @ action)
          (filter (\<lambda>(i, action). action \<noteq> []) (enumerate 0 acts))
      in if entries = [] then ''None'' else join ''; '' entries)"

text \<open>
  Clean text: none of the five tags occurs in it, and it neither starts nor ends with
  whitespace.
\<close>

definition tag_free :: "string \<Rightarrow> bool" where
  "tag_free s = list_all (\<lambda>tag. \<not> sublist tag s) tags_to_remove"

definition trimmed :: "string \<Rightarrow> bool" where
  "trimmed s = (case s of [] \<Rightarrow> True | c # cs \<Rightarrow> \<not> is_space c \<and> \<not> is_space (last s))"

text \<open>A game state with every key absent: the JSON object \<^verbatim>\<open>{}\<close>.\<close>

definition empty_state :: game_state where
  "empty_state =
     \<lparr>hand = None, community = None, opponent_actions = None, pot = None, chips = None,
      stage = None, position = None, current_bet = None, num_players = None\<rparr>"

section \<open>Facts about the string operations\<close>

lemma lstrip_nonspace: "\<not> is_space c \<Longrightarrow> lstrip (c # s) = c # s"
  by (simp add: lstrip_def)

lemma rstrip_nonspace: "\<not> is_space c \<Longrightarrow> rstrip (s @ [c]) = s @ [c]"
  by (simp add: rstrip_def)

lemma strip_fixed:
  assumes "s \<noteq> []" "\<not> is_space (hd s)" "\<not> is_space (last s)"
  shows "strip s = s"
proof -
  from assms(1) obtain c s' where s: "s = c # s'" by (cases s) auto
  with assms(2) have l: "lstrip s = s" by (simp add: lstrip_nonspace)
  from assms(1) have "s = butlast s @ [last s]" by simp
  then have "rstrip s = s" using rstrip_nonspace [OF assms(3), of "butlast s"] by simp
  with l show ?thesis by (simp add: strip_def)
qed

lemma join_nonempty: "x \<noteq> [] \<Longrightarrow> join sep (x # xs) \<noteq> []"
  by (cases xs) simp_all

lemma hd_join: "x \<noteq> [] \<Longrightarrow> hd (join sep (x # xs)) = hd x"
  by (cases xs) simp_all

lemma join_last_nonempty: "xs \<noteq> [] \<Longrightarrow> last xs \<noteq> [] \<Longrightarrow> join sep xs \<noteq> []"
  by (induction sep xs rule: join.induct) simp_all

lemma last_join: "xs \<noteq> [] \<Longrightarrow> last xs \<noteq> [] \<Longrightarrow> last (join sep xs) = last (last xs)"
proof (induction sep xs rule: join.induct)
  case (3 sep x y ys)
  then have "join sep (y # ys) \<noteq> []"
    by (intro join_last_nonempty) simp_all
  with 3 show ?case by (simp del: join.simps add: join.simps(3))
qed simp_all

text \<open>Every joined piece occurs in the joined string.\<close>

lemma sublist_join: "x \<in> set xs \<Longrightarrow> sublist x (join sep xs)"
proof (induction sep xs rule: join.induct)
  case (3 sep y z zs)
  show ?case
  proof (cases "x = y")
    case True
    then show ?thesis by simp
  next
    case False
    with 3 have "sublist x (join sep (z # zs))" by simp
    then obtain ps ss where "join sep (z # zs) = ps @ x @ ss"
      by (auto simp: sublist_def)
    then have "join sep (y # z # zs) = (y @ sep @ ps) @ x @ ss" by simp
    then show ?thesis unfolding sublist_def by blast
  qed
qed simp_all

text \<open>The template starts and ends with \<open>/no_think\<close>: line 106 strips nothing.\<close>

lemma prompt_template_strip:
  "strip (prompt_template players hs htype hstrength connector cs fp stg pos pt chps oas bet)
   = prompt_template players hs htype hstrength connector cs fp stg pos pt chps oas bet"
proof (rule strip_fixed)
  show "prompt_template players hs htype hstrength connector cs fp stg pos pt chps oas bet \<noteq> []"
    unfolding prompt_template_def by (rule join_nonempty) simp
  show "\<not> is_space (hd (prompt_template players hs htype hstrength connector cs fp stg pos pt
      chps oas bet))"
    unfolding prompt_template_def by (subst hd_join) (simp_all add: is_space_def)
  show "\<not> is_space (last (prompt_template players hs htype hstrength connector cs fp stg pos pt
      chps oas bet))"
    unfolding prompt_template_def by (subst last_join) (simp_all add: is_space_def)
qed

text \<open>Removing a tag that does not occur, and stripping a trimmed string, change nothing.\<close>

lemma replace_absent: "old \<noteq> [] \<Longrightarrow> \<not> sublist old s \<Longrightarrow> replace old new s = s"
proof (induction s)
  case Nil
  then show ?case by simp
next
  case (Cons c cs)
  from Cons.prems(2) have "\<not> prefix old (c # cs)" "\<not> sublist old cs"
    by (simp_all add: sublist_Cons_right)
  with Cons show ?case by simp
qed

lemma trimmed_strip: "trimmed s \<Longrightarrow> strip s = s"
proof (cases s)
  case Nil
  then show ?thesis by (simp add: strip_def lstrip_def rstrip_def)
next
  case (Cons c cs)
  assume "trimmed s"
  with Cons have "\<not> is_space (hd s)" "\<not> is_space (last s)" "s \<noteq> []"
    by (simp_all add: trimmed_def)
  then show ?thesis by (simp add: strip_fixed)
qed

lemma remove_tags_clean:
  "list_all (\<lambda>tag. tag \<noteq> [] \<and> \<not> sublist tag s) tags \<Longrightarrow> trimmed s \<Longrightarrow>
   remove_tags tags s = s"
  by (induction tags) (simp_all add: replace_absent trimmed_strip)

section \<open>Facts about build_gto_prompt\<close>

text \<open>
  Whenever the branch of line 40 is not taken, the template's read of
  \<^verbatim>\<open>is_connected\<close> fails.
\<close>

lemma build_gto_prompt_unbound:
  assumes "length hnd \<noteq> 2 \<or> hd hnd = ''unknown''" "hnd \<noteq> []"
    and "list_or (get_or (hand data) []) [''unknown'', ''unknown''] = hnd"
  shows "build_gto_prompt data = Inl UnboundLocalError"
proof -
  from assms(2) obtain h0 hs where h: "hnd = h0 # hs" by (cases hnd) auto
  with assms(1) have c: "\<not> (length hnd = 2 \<and> h0 \<noteq> ''unknown'')" by auto
  have a: "analyze_hand hnd =
      Inr \<lparr>hand_type = ''unknown'', hand_strength = ''unknown'', is_connected = None\<rparr>"
    unfolding analyze_hand_def h list.case using c [unfolded h] by (rule if_not_P)
  have "\<not> (comm \<noteq> [] \<and> length hnd = 2 \<and> hnd ! 0 \<noteq> ''unknown'')" for comm
    using c h by simp
  then have f: "flush_potential hnd comm = Inr ''none''" for comm
    unfolding flush_potential_def by (rule if_not_P)
  have s: "hand_str hnd = Inr (if h0 \<noteq> ''unknown'' then join '', '' hnd else ''unknown'')"
    unfolding hand_str_def using h by simp
  show ?thesis
    unfolding build_gto_prompt_def Let_def assms(3) a f s by simp
qed

text \<open>
  When the branch of line 40 is taken and nothing raises, the prompt is the template
  filled with the analysis.
\<close>

lemma build_gto_prompt_known:
  assumes "list_or (get_or (hand data) []) [''unknown'', ''unknown''] = hnd"
    and "analyze_hand hnd = Inr facts" and "is_connected facts = Some conn"
    and "flush_potential hnd (list_or (get_or (community data) []) []) = Inr fp"
  shows "build_gto_prompt data =
     Inr (prompt_template (str_int (get_or (num_players data) 2))
            (if hd hnd \<noteq> ''unknown'' then join '', '' hnd else ''unknown'')
            (hand_type facts) (hand_strength facts)
            (if conn then ''connector'' else ''non-connector'')
            (community_str (list_or (get_or (community data) []) [])) fp
            (get_or (stage data) ''Unknown'') (get_or (position data) ''SB'')
            (str_int (get_or (pot data) 0)) (str_int (get_or (chips data) 0))
            (opponent_actions_str (list_or (get_or (opponent_actions data) []) []))
            (str_int (get_or (current_bet data) 0)))"
proof -
  from assms(2) obtain h0 hs where h: "hnd = h0 # hs"
    by (cases hnd) (simp_all add: analyze_hand_def)
  have s: "hand_str hnd = Inr (if hd hnd \<noteq> ''unknown'' then join '', '' hnd else ''unknown'')"
    unfolding hand_str_def h by simp
  show ?thesis
    unfolding build_gto_prompt_def Let_def
    by (simp add: assms s prompt_template_strip del: join.simps)
qed

text \<open>The lines of the template that carry the analysis occur in it.\<close>

lemma prompt_has_hand_line:
  "sublist (''- Your hand: '' @ hs @ '' ('' @ htype @ '', '' @ hstrength @ '' '' @ connector @ '')'')
     (prompt_template players hs htype hstrength connector cs fp stg pos pt chps oas bet)"
  unfolding prompt_template_def by (rule sublist_join) simp

lemma prompt_has_community_line:
  "sublist (''- Community cards: '' @ cs @ '' ('' @ fp @ '')'')
     (prompt_template players hs htype hstrength connector cs fp stg pos pt chps oas bet)"
  unfolding prompt_template_def by (rule sublist_join) simp

lemma prompt_has_actions_line:
  "sublist (''- Opponent actions: '' @ oas)
     (prompt_template players hs htype hstrength connector cs fp stg pos pt chps oas bet)"
  unfolding prompt_template_def by (rule sublist_join) simp

lemma build_gto_prompt_hand_line:
  assumes "list_or (get_or (hand data) []) [''unknown'', ''unknown''] = hnd"
    and "analyze_hand hnd = Inr facts" and "is_connected facts = Some conn"
    and "flush_potential hnd (list_or (get_or (community data) []) []) = Inr fp"
  shows "\<exists>p. build_gto_prompt data = Inr p \<and>
     sublist (''- Your hand: '' @ (if hd hnd \<noteq> ''unknown'' then join '', '' hnd else ''unknown'') @
        '' ('' @ hand_type facts @ '', '' @ hand_strength facts @ '' '' @
        (if conn then ''connector'' else ''non-connector'') @ '')'') p"
  apply (rule exI)
  apply (rule conjI)
   apply (rule build_gto_prompt_known [OF assms])
  apply (rule prompt_has_hand_line)
  done

lemma build_gto_prompt_community_line:
  assumes "list_or (get_or (hand data) []) [''unknown'', ''unknown''] = hnd"
    and "analyze_hand hnd = Inr facts" and "is_connected facts = Some conn"
    and "flush_potential hnd (list_or (get_or (community data) []) []) = Inr fp"
  shows "\<exists>p. build_gto_prompt data = Inr p \<and>
     sublist (''- Community cards: '' @ community_str (list_or (get_or (community data) []) []) @
        '' ('' @ fp @ '')'') p"
  apply (rule exI)
  apply (rule conjI)
   apply (rule build_gto_prompt_known [OF assms])
  apply (rule prompt_has_community_line)
  done

lemma build_gto_prompt_actions_line:
  assumes "list_or (get_or (hand data) []) [''unknown'', ''unknown''] = hnd"
    and "analyze_hand hnd = Inr facts" and "is_connected facts = Some conn"
    and "flush_potential hnd (list_or (get_or (community data) []) []) = Inr fp"
  shows "\<exists>p. build_gto_prompt data = Inr p \<and>
     sublist (''- Opponent actions: '' @
        opponent_actions_str (list_or (get_or (opponent_actions data) []) [])) p"
  apply (rule exI)
  apply (rule conjI)
   apply (rule build_gto_prompt_known [OF assms])
  apply (rule prompt_has_actions_line)
  done

text \<open>The suit count and the flush analysis fail only on an empty token.\<close>

lemma count_suits_returns:
  "list_all (\<lambda>c. c \<noteq> []) cards \<Longrightarrow> \<exists>sc. count_suits cards acc = Inr sc"
proof (induction cards arbitrary: acc)
  case Nil
  then show ?case by simp
next
  case (Cons c cards)
  then obtain x xs where "c = x # xs" by (cases c) auto
  with Cons show ?case by simp
qed

lemma fold_max_mem: "fold max xs (x :: int) \<in> set (x # xs)"
proof (induction xs arbitrary: x)
  case Nil
  then show ?case by simp
next
  case (Cons y ys)
  from Cons [of "max y x"] show ?case by (auto simp: max_def split: if_splits)
qed

lemma flush_suit_of_returns:
  "\<exists>fs. flush_suit_of sc (max_default (map snd sc) 0) = Inr fs"
proof (cases sc)
  case Nil
  then show ?thesis by (simp add: flush_suit_of_def)
next
  case (Cons a sc')
  let ?m = "max_default (map snd sc) 0"
  from Cons have "?m \<in> set (map snd sc)"
    using fold_max_mem [of "map snd sc'" "snd a"] by simp
  then obtain s where "(s, ?m) \<in> set sc" by auto
  then have "filter (\<lambda>(s, count). count = ?m) sc \<noteq> []"
    by (auto simp: filter_empty_conv)
  then show ?thesis
    by (auto simp: flush_suit_of_def split: list.splits)
qed

lemma flush_potential_returns:
  assumes "list_all (\<lambda>c. c \<noteq> []) (hnd @ comm)"
  shows "\<exists>fp. flush_potential hnd comm = Inr fp"
proof (cases "comm \<noteq> [] \<and> length hnd = 2 \<and> hnd ! 0 \<noteq> ''unknown''")
  case False
  then show ?thesis unfolding flush_potential_def by (simp only: if_False) blast
next
  case True
  then obtain c1 c2 where h: "hnd = [c1, c2]"
    by (cases hnd; cases "tl hnd"; cases "tl (tl hnd)") auto
  with assms obtain x1 s1 x2 s2 where c: "c1 = x1 # s1" "c2 = x2 # s2"
    by (cases c1; cases c2) auto
  from count_suits_returns [OF assms, of "[]"] obtain sc
    where sc: "count_suits (hnd @ comm) [] = Inr sc" by blast
  from flush_suit_of_returns [of sc] obtain fs
    where fs: "flush_suit_of sc (max_default (map snd sc) 0) = Inr fs" by blast
  show ?thesis
    unfolding flush_potential_def if_P [OF True] sc sum.case Let_def fs
    by (cases fs) (simp_all add: h c del: last.simps)
qed


lemma count_suits_raises:
  "\<not> list_all (\<lambda>c. c \<noteq> []) cards \<Longrightarrow> count_suits cards acc = Inl IndexError"
proof (induction cards arbitrary: acc)
  case Nil
  then show ?case by simp
next
  case (Cons c cards)
  show ?case
  proof (cases c)
    case Nil
    then show ?thesis by simp
  next
    case (Cons x xs)
    with Cons.prems have "\<not> list_all (\<lambda>c. c \<noteq> []) cards" by simp
    from Cons.IH [OF this] Cons show ?thesis by simp
  qed
qed

text \<open>
  The inputs on which build_gto_prompt returns a prompt: the hand, after the default of
  line 26, has two tokens, the first is not \<open>unknown\<close>, and no hole or community
  token is the empty string.
\<close>

lemma build_gto_prompt_returns_iff:
  assumes hnd_def: "hnd = list_or (get_or (hand data) []) [''unknown'', ''unknown'']"
    and comm_def: "comm = list_or (get_or (community data) []) []"
  shows "(\<exists>p. build_gto_prompt data = Inr p) \<longleftrightarrow>
     length hnd = 2 \<and> hd hnd \<noteq> ''unknown'' \<and> list_all (\<lambda>c. c \<noteq> []) (hnd @ comm)"
proof (cases "length hnd = 2 \<and> hd hnd \<noteq> ''unknown''")
  case False
  have "hnd \<noteq> []" by (simp add: hnd_def list_or_def)
  with False have "build_gto_prompt data = Inl UnboundLocalError"
    by (intro build_gto_prompt_unbound [where hnd = hnd]) (auto simp: hnd_def)
  with False show ?thesis by auto
next
  case True
  then obtain c1 c2 where h: "hnd = [c1, c2]" and k: "c1 \<noteq> ''unknown''"
    by (cases hnd; cases "tl hnd"; cases "tl (tl hnd)") auto
  have s: "hand_str hnd = Inr (join '', '' hnd)"
    by (simp add: hand_str_def h k)
  show ?thesis
  proof (cases "list_all (\<lambda>c. c \<noteq> []) (hnd @ comm)")
    case all: True
    then obtain x1 s1 x2 s2 where c: "c1 = x1 # s1" "c2 = x2 # s2"
      unfolding h by (cases c1; cases c2) auto
    obtain facts conn where a: "analyze_hand hnd = Inr facts" "is_connected facts = Some conn"
      unfolding h analyze_hand_def using k by (simp add: c Let_def del: last.simps)
    from flush_potential_returns [OF all] obtain fp where "flush_potential hnd comm = Inr fp"
      by blast
    then have "\<exists>p. build_gto_prompt data = Inr p"
      using build_gto_prompt_known [OF hnd_def [symmetric] a] unfolding comm_def by simp
    with True all show ?thesis by simp
  next
    case some: False
    have "\<exists>e. build_gto_prompt data = Inl e"
    proof (cases "c1 = [] \<or> c2 = []")
      case True
      then have "analyze_hand hnd = Inl IndexError"
        unfolding h analyze_hand_def using k
        by (cases c1; cases c2) (simp_all add: Let_def del: last.simps)
      then show ?thesis
        unfolding build_gto_prompt_def Let_def hnd_def [symmetric] s by simp
    next
      case False
      then obtain x1 s1 x2 s2 where c: "c1 = x1 # s1" "c2 = x2 # s2"
        by (cases c1; cases c2) auto
      obtain facts where a: "analyze_hand hnd = Inr facts"
        unfolding h analyze_hand_def using k by (simp add: c Let_def del: last.simps)
      from some c h have "comm \<noteq> []" by auto
      with True h have g: "comm \<noteq> [] \<and> length hnd = 2 \<and> hnd ! 0 \<noteq> ''unknown''" by simp
      have "flush_potential hnd comm = Inl IndexError"
        unfolding flush_potential_def if_P [OF g] count_suits_raises [OF some] by simp
      then show ?thesis
        unfolding build_gto_prompt_def Let_def hnd_def [symmetric] comm_def [symmetric] s a
        by simp
    qed
    with some show ?thesis by auto
  qed
qed


text \<open>
  The flush text when the highest suit count is exactly 3: line 73 is skipped, and line
  76 prefixes the untouched default when a hole card has the suit that line 71 chose.
\<close>

lemma flush_potential_three:
  assumes "comm \<noteq> []" "c1 \<noteq> ''unknown''"
    and "count_suits ([c1, c2] @ comm) [] = Inr suit_counts"
    and "max_default (map snd suit_counts) 0 = 3"
    and "flush_suit_of suit_counts 3 = Inr (Some s)"
  shows "flush_potential [c1, c2] comm =
     Inr (if last c1 = s \<or> last c2 = s then ''you have a none'' else ''none'')"
proof -
  have "list_all (\<lambda>c. c \<noteq> []) ([c1, c2] @ comm)"
    using count_suits_raises [of "[c1, c2] @ comm" "[]"] assms(3) by auto
  then obtain x1 s1 x2 s2 where c: "c1 = x1 # s1" "c2 = x2 # s2"
    by (cases c1; cases c2) auto
  have g: "comm \<noteq> [] \<and> length [c1, c2] = 2 \<and> [c1, c2] ! 0 \<noteq> ''unknown''"
    using assms(1,2) by simp
  show ?thesis
    unfolding flush_potential_def if_P [OF g] assms(3) sum.case Let_def assms(4) assms(5)
    by (simp add: c del: last.simps)
qed

text \<open>The analysis at the inputs the claims name.\<close>

lemma analyze_AhKh:
  "analyze_hand [''Ah'', ''Kh''] =
     Inr \<lparr>hand_type = ''suited'', hand_strength = ''strong'', is_connected = Some True\<rparr>"
  by code_simp

lemma flush_AhKh_QhJh2c:
  "flush_potential [''Ah'', ''Kh''] [''Qh'', ''Jh'', ''2c''] =
     Inr ''you have a flush draw with 4 h cards''"
  by code_simp

lemma flush_AhKh_Qh2c3d:
  "flush_potential [''Ah'', ''Kh''] [''Qh'', ''2c'', ''3d''] = Inr ''you have a none''"
  by code_simp

lemma count_AhKh_Qh2c3d:
  "count_suits ([''Ah'', ''Kh''] @ [''Qh'', ''2c'', ''3d'']) [] =
     Inr [(CHR ''h'', 3), (CHR ''c'', 1), (CHR ''d'', 1)]"
  by code_simp

text \<open>The code's hand analysis and action loop against the specification's wording.\<close>

lemma dict_get_map_of:
  "dict_get d k dflt = (case map_of d k of None \<Rightarrow> dflt | Some v \<Rightarrow> v)"
  by (induction d) auto

lemma spec_rank_dict_get: "spec_rank c = dict_get rank_values (butlast c) 0"
  by (simp add: spec_rank_def dict_get_map_of)

lemma card_token_rank: "card_token c \<Longrightarrow> 2 \<le> spec_rank c \<and> spec_rank c \<le> 14"
  unfolding card_token_def spec_rank_def rank_values_def by auto

lemma card_token_known: "card_token c \<Longrightarrow> c \<noteq> ''unknown''"
  unfolding card_token_def rank_values_def by auto

lemma card_token_last: "card_token c \<Longrightarrow> str_last c = Inr (last c)"
  unfolding card_token_def by (cases c) simp_all

lemma analyze_hand_tokens:
  assumes "card_token c1" "card_token c2"
  shows "analyze_hand [c1, c2] =
     Inr \<lparr>hand_type = (if last c1 = last c2 then ''suited'' else ''offsuit''),
          hand_strength = spec_strength (spec_rank c1) (spec_rank c2) (last c1 = last c2),
          is_connected = Some (\<bar>spec_rank c1 - spec_rank c2\<bar> \<le> 2)\<rparr>"
  unfolding analyze_hand_def
  using card_token_known [OF assms(1)]
  by (simp add: card_token_last [OF assms(1)] card_token_last [OF assms(2)] Let_def
      spec_rank_dict_get [symmetric] spec_strength_def del: str_last.simps)

lemma format_actions_filter:
  "format_actions i acts acc =
     acc @ map (\<lambda>(i, action). ''Player '' @ str_int (int i) @ '': '' @ action)
             (filter (\<lambda>(i, action). action \<noteq> []) (enumerate i acts))"
  by (induction acts arbitrary: i acc) simp_all

lemma opponent_actions_str_spec: "opponent_actions_str acts = spec_opponent_actions acts"
  by (simp add: opponent_actions_str_def spec_opponent_actions_def format_actions_filter Let_def)

lemma no_community: "flush_potential hnd [] = Inr ''none''"
  by (simp add: flush_potential_def)

lemma analyze_AsKs:
  "analyze_hand [''As'', ''Ks''] =
     Inr \<lparr>hand_type = ''suited'', hand_strength = ''strong'', is_connected = Some True\<rparr>"
  by code_simp

lemma analyze_7h2c:
  "analyze_hand [''7h'', ''2c''] =
     Inr \<lparr>hand_type = ''offsuit'', hand_strength = ''weak'', is_connected = Some False\<rparr>"
  by code_simp

section \<open>Claims about build_gto_prompt\<close>

text \<open>
  C1 (the claim: build_gto_prompt is total and never fails, also on an absent or empty
  hand, the sentinel, or a hand whose length is not 2). The code does otherwise: on the
  empty JSON object, on any state whose hand is absent or empty (so that the sentinel
  is substituted), and on any state whose hand has one card or three and more, the
  function raises UnboundLocalError at the template's read of
  \<^verbatim>\<open>is_connected\<close>, whatever the other fields are.
\<close>

theorem build_gto_prompt_not_total:
  "build_gto_prompt empty_state = Inl UnboundLocalError \<and>
   build_gto_prompt (data\<lparr>hand := None\<rparr>) = Inl UnboundLocalError \<and>
   build_gto_prompt (data\<lparr>hand := Some []\<rparr>) = Inl UnboundLocalError \<and>
   build_gto_prompt (data\<lparr>hand := Some [c]\<rparr>) = Inl UnboundLocalError \<and>
   build_gto_prompt (data\<lparr>hand := Some (c1 # c2 # c3 # cs)\<rparr>) = Inl UnboundLocalError"
proof -
  have e: "build_gto_prompt empty_state = Inl UnboundLocalError"
    by (rule build_gto_prompt_unbound [where hnd = "[''unknown'', ''unknown'']"])
       (simp_all add: list_or_def get_or_def empty_state_def)
  have a: "build_gto_prompt (data\<lparr>hand := None\<rparr>) = Inl UnboundLocalError"
    by (rule build_gto_prompt_unbound [where hnd = "[''unknown'', ''unknown'']"])
       (simp_all add: list_or_def get_or_def)
  have b: "build_gto_prompt (data\<lparr>hand := Some []\<rparr>) = Inl UnboundLocalError"
    by (rule build_gto_prompt_unbound [where hnd = "[''unknown'', ''unknown'']"])
       (simp_all add: list_or_def get_or_def)
  have c: "build_gto_prompt (data\<lparr>hand := Some [c]\<rparr>) = Inl UnboundLocalError"
    by (rule build_gto_prompt_unbound [where hnd = "[c]"])
       (simp_all add: list_or_def get_or_def)
  have d: "build_gto_prompt (data\<lparr>hand := Some (c1 # c2 # c3 # cs)\<rparr>) = Inl UnboundLocalError"
    by (rule build_gto_prompt_unbound [where hnd = "c1 # c2 # c3 # cs"])
       (simp_all add: list_or_def get_or_def)
  from e a b c d show ?thesis by (intro conjI)
qed


text \<open>
  C3 (the claim: with the hand \<^verbatim>\<open>["unknown","unknown"]\<close> the prompt contains
  \<open>Your hand: unknown\<close> and the flush text is \<open>none\<close>). The code does otherwise:
  for every game state with that hand, build_gto_prompt returns no prompt at all; it
  raises UnboundLocalError.
\<close>

theorem unknown_hand_raises:
  "build_gto_prompt (data\<lparr>hand := Some [''unknown'', ''unknown'']\<rparr>) = Inl UnboundLocalError"
  by (rule build_gto_prompt_unbound [where hnd = "[''unknown'', ''unknown'']"])
     (simp_all add: list_or_def get_or_def)


text \<open>
  C6: with the hole cards Ah, Kh and the community cards Qh, Jh, 2c the flush text is
  \<open>you have a flush draw with 4 h cards\<close>, and the prompt built from any game
  state with these cards carries it on its community line.
\<close>

theorem flush_draw_four_hearts:
  "flush_potential [''Ah'', ''Kh''] [''Qh'', ''Jh'', ''2c''] =
     Inr ''you have a flush draw with 4 h cards'' \<and>
   (\<exists>p. build_gto_prompt
           (data\<lparr>hand := Some [''Ah'', ''Kh''], community := Some [''Qh'', ''Jh'', ''2c'']\<rparr>) = Inr p \<and>
        sublist ''- Community cards: Qh, Jh, 2c (you have a flush draw with 4 h cards)'' p)"
proof -
  let ?d = "data\<lparr>hand := Some [''Ah'', ''Kh''], community := Some [''Qh'', ''Jh'', ''2c'']\<rparr>"
  have h: "list_or (get_or (hand ?d) []) [''unknown'', ''unknown''] = [''Ah'', ''Kh'']"
    by (simp add: list_or_def get_or_def)
  have c: "list_or (get_or (community ?d) []) [] = [''Qh'', ''Jh'', ''2c'']"
    by (simp add: list_or_def get_or_def)
  have f: "flush_potential [''Ah'', ''Kh''] (list_or (get_or (community ?d) []) []) =
      Inr ''you have a flush draw with 4 h cards''"
    unfolding c by (rule flush_AhKh_QhJh2c)
  have i: "is_connected \<lparr>hand_type = ''suited'', hand_strength = ''strong'',
      is_connected = Some True\<rparr> = Some True"
    by simp
  have "\<exists>p. build_gto_prompt ?d = Inr p \<and>
     sublist ''- Community cards: Qh, Jh, 2c (you have a flush draw with 4 h cards)'' p"
    using build_gto_prompt_community_line [OF h analyze_AhKh i f]
    unfolding c by (simp add: community_str_def)
  with flush_AhKh_QhJh2c show ?thesis by (rule conjI)
qed


text \<open>
  C2 (the claim: when the highest suit count over hole and community cards is exactly
  3, the flush text is \<open>none\<close>). The code does otherwise when a hole card has that
  suit: with the hole cards Ah, Kh and the community cards Qh, 2c, 3d the counts are
  three hearts, one club and one diamond, line 72 leaves the text at \<open>none\<close>, and
  line 75 still prefixes it, so the flush text is \<open>you have a none\<close> and the
  prompt carries it.
\<close>

theorem three_suited_flush_text:
  "count_suits ([''Ah'', ''Kh''] @ [''Qh'', ''2c'', ''3d'']) [] =
     Inr [(CHR ''h'', 3), (CHR ''c'', 1), (CHR ''d'', 1)] \<and>
   flush_potential [''Ah'', ''Kh''] [''Qh'', ''2c'', ''3d''] = Inr ''you have a none'' \<and>
   (\<exists>p. build_gto_prompt
           (data\<lparr>hand := Some [''Ah'', ''Kh''], community := Some [''Qh'', ''2c'', ''3d'']\<rparr>) = Inr p \<and>
        sublist ''- Community cards: Qh, 2c, 3d (you have a none)'' p)"
proof -
  let ?d = "data\<lparr>hand := Some [''Ah'', ''Kh''], community := Some [''Qh'', ''2c'', ''3d'']\<rparr>"
  have h: "list_or (get_or (hand ?d) []) [''unknown'', ''unknown''] = [''Ah'', ''Kh'']"
    by (simp add: list_or_def get_or_def)
  have c: "list_or (get_or (community ?d) []) [] = [''Qh'', ''2c'', ''3d'']"
    by (simp add: list_or_def get_or_def)
  have f: "flush_potential [''Ah'', ''Kh''] (list_or (get_or (community ?d) []) []) =
      Inr ''you have a none''"
    unfolding c by (rule flush_AhKh_Qh2c3d)
  have i: "is_connected \<lparr>hand_type = ''suited'', hand_strength = ''strong'',
      is_connected = Some True\<rparr> = Some True"
    by simp
  have "\<exists>p. build_gto_prompt ?d = Inr p \<and>
     sublist ''- Community cards: Qh, 2c, 3d (you have a none)'' p"
    using build_gto_prompt_community_line [OF h analyze_AhKh i f]
    unfolding c by (simp add: community_str_def)
  with count_AhKh_Qh2c3d flush_AhKh_Qh2c3d show ?thesis by (intro conjI)
qed


text \<open>
  C5: for a hand of two card tokens (a rank of the table followed by a suit character)
  the code's strength is the specification's ordered rule on the rank values of the
  two tokens, each between 2 and 14 with the ace at 14, the type is suited exactly when
  the suit characters agree, and the connectedness flag is a gap of at most 2. The hand
  As, Ks is suited and strong, the hand 7h, 2c is weak, and the prompts built from
  them say so on the hand line.
\<close>

theorem hand_strength_rule:
  assumes "card_token c1" "card_token c2"
  shows "analyze_hand [c1, c2] =
       Inr \<lparr>hand_type = (if last c1 = last c2 then ''suited'' else ''offsuit''),
            hand_strength = spec_strength (spec_rank c1) (spec_rank c2) (last c1 = last c2),
            is_connected = Some (\<bar>spec_rank c1 - spec_rank c2\<bar> \<le> 2)\<rparr> \<and>
     2 \<le> spec_rank c1 \<and> spec_rank c1 \<le> 14 \<and> 2 \<le> spec_rank c2 \<and> spec_rank c2 \<le> 14 \<and>
     spec_rank ''As'' = 14 \<and>
     analyze_hand [''As'', ''Ks''] =
       Inr \<lparr>hand_type = ''suited'', hand_strength = ''strong'', is_connected = Some True\<rparr> \<and>
     analyze_hand [''7h'', ''2c''] =
       Inr \<lparr>hand_type = ''offsuit'', hand_strength = ''weak'', is_connected = Some False\<rparr> \<and>
     (\<exists>p. build_gto_prompt (data\<lparr>hand := Some [''As'', ''Ks''], community := None\<rparr>) = Inr p \<and>
          sublist ''- Your hand: As, Ks (suited, strong connector)'' p) \<and>
     (\<exists>p. build_gto_prompt (data\<lparr>hand := Some [''7h'', ''2c''], community := None\<rparr>) = Inr p \<and>
          sublist ''- Your hand: 7h, 2c (offsuit, weak non-connector)'' p)"
proof -
  have r: "spec_rank ''As'' = 14" by (simp add: spec_rank_def rank_values_def)
  have c: "list_or (get_or (community (d\<lparr>community := None\<rparr>)) []) [] = []" for d :: game_state
    by (simp add: list_or_def get_or_def)
  have h: "list_or (get_or (hand (data\<lparr>hand := Some [a, b], community := None\<rparr>)) [])
      [''unknown'', ''unknown''] = [a, b]" for a b
    by (simp add: list_or_def get_or_def)
  have f: "flush_potential hnd (list_or (get_or (community (data\<lparr>hand := x, community := None\<rparr>)) []) [])
      = Inr ''none''" for hnd x
    unfolding c by (rule no_community)
  have p1: "\<exists>p. build_gto_prompt (data\<lparr>hand := Some [''As'', ''Ks''], community := None\<rparr>) = Inr p \<and>
      sublist ''- Your hand: As, Ks (suited, strong connector)'' p"
    using build_gto_prompt_hand_line [OF h analyze_AsKs _ f, of True] by simp
  have p2: "\<exists>p. build_gto_prompt (data\<lparr>hand := Some [''7h'', ''2c''], community := None\<rparr>) = Inr p \<and>
      sublist ''- Your hand: 7h, 2c (offsuit, weak non-connector)'' p"
    using build_gto_prompt_hand_line [OF h analyze_7h2c _ f, of False] by simp
  from analyze_hand_tokens [OF assms] card_token_rank [OF assms(1)] card_token_rank [OF assms(2)]
    r analyze_AsKs analyze_7h2c p1 p2
  show ?thesis by (intro conjI) simp_all
qed

theorem hand_strength_rule_witness:
  "card_token ''10d'' \<and> card_token ''9d'' \<and>
   analyze_hand [''10d'', ''9d''] =
     Inr \<lparr>hand_type = ''suited'', hand_strength = ''strong'', is_connected = Some True\<rparr> \<and>
   spec_rank ''10d'' = 10 \<and> spec_rank ''9d'' = 9"
proof -
  have a: "card_token ''10d''" by (simp add: card_token_def rank_values_def)
  have b: "card_token ''9d''" by (simp add: card_token_def rank_values_def)
  have "spec_rank ''10d'' = 10" "spec_rank ''9d'' = 9"
    by (simp_all add: spec_rank_def rank_values_def)
  with a b hand_strength_rule [OF a b, of empty_state] show ?thesis
    by (simp add: spec_strength_def)
qed


text \<open>
  C7: the formatted opponent actions are the specification's: one entry
  \<open>Player i: action\<close> per non-empty action under its own index, joined by
  \<open>; \<close>, and \<open>None\<close> when no entry is left. The list raise, empty, call gives
  \<open>Player 0: raise; Player 2: call\<close>, and the prompt carries the formatted string on
  its opponent-actions line.
\<close>

theorem opponent_actions_format:
  "opponent_actions_str acts = spec_opponent_actions acts \<and>
   opponent_actions_str [''raise'', '''', ''call''] = ''Player 0: raise; Player 2: call'' \<and>
   opponent_actions_str [] = ''None'' \<and>
   opponent_actions_str ['''', ''''] = ''None'' \<and>
   (\<exists>p. build_gto_prompt
          (data\<lparr>hand := Some [''As'', ''Ks''], community := None, opponent_actions := Some acts\<rparr>) = Inr p \<and>
        sublist (''- Opponent actions: '' @ spec_opponent_actions acts) p)"
proof -
  let ?d = "data\<lparr>hand := Some [''As'', ''Ks''], community := None, opponent_actions := Some acts\<rparr>"
  have e: "opponent_actions_str [''raise'', '''', ''call''] = ''Player 0: raise; Player 2: call''"
    by code_simp
  have n: "opponent_actions_str [] = ''None''" "opponent_actions_str ['''', ''''] = ''None''"
    by (simp_all add: opponent_actions_str_def)
  have h: "list_or (get_or (hand ?d) []) [''unknown'', ''unknown''] = [''As'', ''Ks'']"
    by (simp add: list_or_def get_or_def)
  have f: "flush_potential [''As'', ''Ks''] (list_or (get_or (community ?d) []) []) = Inr ''none''"
    by (simp add: list_or_def get_or_def no_community)
  have a: "list_or (get_or (opponent_actions ?d) []) [] = acts"
    by (simp add: list_or_def get_or_def)
  have "\<exists>p. build_gto_prompt ?d = Inr p \<and>
      sublist (''- Opponent actions: '' @ spec_opponent_actions acts) p"
    using build_gto_prompt_actions_line [OF h analyze_AsKs _ f, of True]
    unfolding a opponent_actions_str_spec by simp
  with opponent_actions_str_spec e n show ?thesis by (intro conjI)
qed


section \<open>Facts about the route /gto_tip\<close>








lemma build_AsKs: "\<exists>p. build_gto_prompt (empty_state\<lparr>hand := Some [''As'', ''Ks'']\<rparr>) = Inr p"
proof -
  let ?d = "empty_state\<lparr>hand := Some [''As'', ''Ks'']\<rparr>"
  have h: "list_or (get_or (hand ?d) []) [''unknown'', ''unknown''] = [''As'', ''Ks'']"
    by (simp add: list_or_def get_or_def)
  have f: "flush_potential [''As'', ''Ks''] (list_or (get_or (community ?d) []) []) = Inr ''none''"
    by (simp add: list_or_def get_or_def no_community empty_state_def)
  from build_gto_prompt_known [OF h analyze_AsKs _ f, of True] show ?thesis by simp
qed

text \<open>The reply of the handler, from the outcome of the body and of the backend.\<close>

lemma gto_tip_raised:
  "gto_tip_try get_json post = Inl e \<Longrightarrow>
   gto_tip get_json post = (500, [(''tip'', ''Error generating tip'')])"
  by (simp add: gto_tip_def)

lemma gto_tip_returned:
  "gto_tip_try get_json post = Inr tip \<Longrightarrow> gto_tip get_json post = (200, [(''gto_tip'', tip)])"
  by (simp add: gto_tip_def)

lemma gto_tip_try_backend:
  assumes "build_gto_prompt data = Inr p" and "post (payload_of p) = Inr (http_reply sc body)"
  shows "gto_tip_try (Inr (Dict data)) post =
     (if 400 \<le> sc \<and> sc < 600 then Inl HTTPError
      else case body of Inl e \<Rightarrow> Inl e | Inr raw_output \<Rightarrow> tip_of_response raw_output)"
  using assms by (simp add: gto_tip_try_def payload_of_def http_reply_def)

lemma gto_tip_relayed:
  assumes "build_gto_prompt data = Inr p"
    and "post (payload_of p) = Inr (http_reply sc (Inr raw_output))"
    and "\<not> (400 \<le> sc \<and> sc < 600)" and "tip_of_response raw_output = Inr tip"
  shows "gto_tip (Inr (Dict data)) post = (200, [(''gto_tip'', tip)])"
  using gto_tip_try_backend [of data p post sc "Inr raw_output"] assms
  by (intro gto_tip_returned) simp

lemma tip_of_reply_call: "tip_of_response (reply_body ''Call.'') = Inr ''Call.''"
  by code_simp

lemma tip_of_reply_fold: "tip_of_response (reply_body ''  /no_think Fold here. '') = Inr ''Fold here.''"
  by code_simp

section \<open>Claims about the route /gto_tip\<close>

text \<open>
  C8: the cleaning step removes the literal tags \<open>/think\<close>, \<open></think>\<close>,
  \<open>/no_think\<close>, \<open><\<close> and \<open>>\<close> in this order, stripping whitespace after
  each removal. The reply text \<open>  /no_think Fold here. \<close> is extracted as
  \<open>/no_think Fold here.\<close> and cleaned to \<open>Fold here.\<close>. The removal is
  literal and case-sensitive: \<open>/THINK\<close> and \<open>/No_Think\<close> stay, and \<open>.*\<close> is
  no pattern.
\<close>

theorem sanitize_order:
  "clean_tip tip =
     strip (replace ''>'' [] (strip (replace ''<'' [] (strip (replace ''/no_think'' []
       (strip (replace ''</think>'' [] (strip (replace ''/think'' []
          (if tip = [] then ''No tip generated.'' else tip)))))))))) \<and>
   extract_tip (JObj [(''choices'', JArr [JObj [(''text'', JStr ''  /no_think Fold here. '')]])]) =
     Inr ''/no_think Fold here.'' \<and>
   clean_tip ''/no_think Fold here.'' = ''Fold here.'' \<and>
   tip_of_response (JObj [(''choices'', JArr [JObj [(''text'', JStr ''  /no_think Fold here. '')]])]) =
     Inr ''Fold here.'' \<and>
   clean_tip ''/THINK <b>Call</b> /No_Think'' = ''/THINK bCall/b /No_Think'' \<and>
   clean_tip ''a.*b /think c'' = ''a.*b  c''"
proof -
  have 1: "clean_tip tip =
     strip (replace ''>'' [] (strip (replace ''<'' [] (strip (replace ''/no_think'' []
       (strip (replace ''</think>'' [] (strip (replace ''/think'' []
          (if tip = [] then ''No tip generated.'' else tip))))))))))"
    by (simp add: clean_tip_def tags_to_remove_def)
  have 2: "extract_tip (JObj [(''choices'', JArr [JObj [(''text'', JStr ''  /no_think Fold here. '')]])]) =
     Inr ''/no_think Fold here.''"
    by code_simp
  have 3: "clean_tip ''/no_think Fold here.'' = ''Fold here.''"
    by code_simp
  have 4: "tip_of_response (JObj [(''choices'', JArr [JObj [(''text'', JStr ''  /no_think Fold here. '')]])]) =
     Inr ''Fold here.''"
    unfolding tip_of_response_def 2 by (simp add: 3)
  have 5: "clean_tip ''/THINK <b>Call</b> /No_Think'' = ''/THINK bCall/b /No_Think''"
    by code_simp
  have 6: "clean_tip ''a.*b /think c'' = ''a.*b  c''"
    by code_simp
  from 1 2 3 4 5 6 show ?thesis by (intro conjI)
qed


text \<open>
  C9: on a string in which none of the five tags occurs and which neither starts nor
  ends with whitespace, the tag-stripping loop returns the string unchanged, so running
  it twice is running it once; for such a string that is not empty the same holds of
  the whole cleaning step.
\<close>

theorem sanitize_fixes_clean_text:
  assumes "tag_free s" "trimmed s"
  shows "remove_tags tags_to_remove s = s \<and>
    remove_tags tags_to_remove (remove_tags tags_to_remove s) = remove_tags tags_to_remove s \<and>
    (s \<noteq> [] \<longrightarrow> clean_tip s = s \<and> clean_tip (clean_tip s) = clean_tip s)"
proof -
  from assms(1) have "list_all (\<lambda>tag. tag \<noteq> [] \<and> \<not> sublist tag s) tags_to_remove"
    by (simp add: tag_free_def tags_to_remove_def)
  then have "remove_tags tags_to_remove s = s"
    using assms(2) by (rule remove_tags_clean)
  then show ?thesis by (simp add: clean_tip_def)
qed

theorem sanitize_fixes_clean_text_witness:
  "tag_free ''Fold here.'' \<and> trimmed ''Fold here.'' \<and>
   remove_tags tags_to_remove ''Fold here.'' = ''Fold here.'' \<and>
   clean_tip ''Fold here.'' = ''Fold here.''"
proof -
  have a: "tag_free ''Fold here.''" by code_simp
  have b: "trimmed ''Fold here.''" by code_simp
  from a b sanitize_fixes_clean_text [OF a b] show ?thesis by simp
qed


text \<open>
  C4, as the code has it: whatever the request and the backend do, the handler answers
  either 500 with exactly \<open>tip: Error generating tip\<close> or 200 with the one-key
  object \<open>gto_tip\<close>. It answers 500 when \<^verbatim>\<open>request.get_json\<close> raises, when the
  body is no dict, when the prompt cannot be built, when \<^verbatim>\<open>requests.post\<close> raises,
  when the backend's status code is from 400 to 599, when the reply is not JSON, and
  when no text can be extracted from the reply; the error itself never reaches the
  caller. It answers 200 with the cleaned tip when the prompt is built, the status code
  is outside 400 to 599 and the text is extracted.
\<close>

theorem gto_tip_reply_by_stage:
  "(gto_tip get_json post = (500, [(''tip'', ''Error generating tip'')]) \<or>
      (\<exists>t. gto_tip get_json post = (200, [(''gto_tip'', t)]))) \<and>
   (get_json = Inl e \<longrightarrow>
      gto_tip get_json post = (500, [(''tip'', ''Error generating tip'')])) \<and>
   (get_json = Inr NotADict \<longrightarrow>
      gto_tip get_json post = (500, [(''tip'', ''Error generating tip'')])) \<and>
   (get_json = Inr (Dict data) \<and> build_gto_prompt data = Inl e \<longrightarrow>
      gto_tip get_json post = (500, [(''tip'', ''Error generating tip'')])) \<and>
   (get_json = Inr (Dict data) \<and> build_gto_prompt data = Inr p \<and>
      post (payload_of p) = Inl e \<longrightarrow>
      gto_tip get_json post = (500, [(''tip'', ''Error generating tip'')])) \<and>
   (get_json = Inr (Dict data) \<and> build_gto_prompt data = Inr p \<and>
      post (payload_of p) = Inr (http_reply sc body) \<and> 400 \<le> sc \<and> sc < 600 \<longrightarrow>
      gto_tip get_json post = (500, [(''tip'', ''Error generating tip'')])) \<and>
   (get_json = Inr (Dict data) \<and> build_gto_prompt data = Inr p \<and>
      post (payload_of p) = Inr (http_reply sc (Inl e)) \<longrightarrow>
      gto_tip get_json post = (500, [(''tip'', ''Error generating tip'')])) \<and>
   (get_json = Inr (Dict data) \<and> build_gto_prompt data = Inr p \<and>
      post (payload_of p) = Inr (http_reply sc (Inr raw_output)) \<and>
      tip_of_response raw_output = Inl e \<longrightarrow>
      gto_tip get_json post = (500, [(''tip'', ''Error generating tip'')])) \<and>
   (get_json = Inr (Dict data) \<and> build_gto_prompt data = Inr p \<and>
      post (payload_of p) = Inr (http_reply sc (Inr raw_output)) \<and>
      \<not> (400 \<le> sc \<and> sc < 600) \<and> tip_of_response raw_output = Inr tip \<longrightarrow>
      gto_tip get_json post = (200, [(''gto_tip'', tip)]))"
proof (intro conjI impI)
  show "gto_tip get_json post = (500, [(''tip'', ''Error generating tip'')]) \<or>
      (\<exists>t. gto_tip get_json post = (200, [(''gto_tip'', t)]))"
    by (cases "gto_tip_try get_json post") (simp_all add: gto_tip_def)
next
  assume "get_json = Inl e"
  then show "gto_tip get_json post = (500, [(''tip'', ''Error generating tip'')])"
    by (intro gto_tip_raised [where e = e]) (simp add: gto_tip_try_def)
next
  assume "get_json = Inr NotADict"
  then show "gto_tip get_json post = (500, [(''tip'', ''Error generating tip'')])"
    by (intro gto_tip_raised [where e = AttributeError]) (simp add: gto_tip_try_def)
next
  assume "get_json = Inr (Dict data) \<and> build_gto_prompt data = Inl e"
  then show "gto_tip get_json post = (500, [(''tip'', ''Error generating tip'')])"
    by (intro gto_tip_raised [where e = e]) (simp add: gto_tip_try_def)
next
  assume "get_json = Inr (Dict data) \<and> build_gto_prompt data = Inr p \<and>
      post (payload_of p) = Inl e"
  then show "gto_tip get_json post = (500, [(''tip'', ''Error generating tip'')])"
    by (intro gto_tip_raised [where e = e]) (simp add: gto_tip_try_def payload_of_def)
next
  assume a: "get_json = Inr (Dict data) \<and> build_gto_prompt data = Inr p \<and>
      post (payload_of p) = Inr (http_reply sc body) \<and> 400 \<le> sc \<and> sc < 600"
  then have "gto_tip_try get_json post = Inl HTTPError"
    using gto_tip_try_backend [of data p post sc body] by simp
  then show "gto_tip get_json post = (500, [(''tip'', ''Error generating tip'')])"
    by (rule gto_tip_raised)
next
  assume a: "get_json = Inr (Dict data) \<and> build_gto_prompt data = Inr p \<and>
      post (payload_of p) = Inr (http_reply sc (Inl e))"
  then have "\<exists>e'. gto_tip_try get_json post = Inl e'"
    using gto_tip_try_backend [of data p post sc "Inl e"] by simp
  then show "gto_tip get_json post = (500, [(''tip'', ''Error generating tip'')])"
    by (auto intro: gto_tip_raised)
next
  assume a: "get_json = Inr (Dict data) \<and> build_gto_prompt data = Inr p \<and>
      post (payload_of p) = Inr (http_reply sc (Inr raw_output)) \<and>
      tip_of_response raw_output = Inl e"
  then have "\<exists>e'. gto_tip_try get_json post = Inl e'"
    using gto_tip_try_backend [of data p post sc "Inr raw_output"] by simp
  then show "gto_tip get_json post = (500, [(''tip'', ''Error generating tip'')])"
    by (auto intro: gto_tip_raised)
next
  assume a: "get_json = Inr (Dict data) \<and> build_gto_prompt data = Inr p \<and>
      post (payload_of p) = Inr (http_reply sc (Inr raw_output)) \<and>
      \<not> (400 \<le> sc \<and> sc < 600) \<and> tip_of_response raw_output = Inr tip"
  then show "gto_tip get_json post = (200, [(''gto_tip'', tip)])"
    using gto_tip_relayed [of data p post sc raw_output tip] by simp
qed

theorem gto_tip_reply_by_stage_witness:
  "(\<exists>p. build_gto_prompt (empty_state\<lparr>hand := Some [''As'', ''Ks'']\<rparr>) = Inr p) \<and>
   gto_tip (Inr (Dict (empty_state\<lparr>hand := Some [''As'', ''Ks'']\<rparr>)))
     (fixed_backend 200 (Inr (reply_body ''  /no_think Fold here. ''))) =
     (200, [(''gto_tip'', ''Fold here.'')]) \<and>
   gto_tip (Inr (Dict (empty_state\<lparr>hand := Some [''As'', ''Ks'']\<rparr>)))
     (fixed_backend 503 (Inr (reply_body ''  /no_think Fold here. ''))) =
     (500, [(''tip'', ''Error generating tip'')]) \<and>
   gto_tip (Inr (Dict (empty_state\<lparr>hand := Some [''As'', ''Ks'']\<rparr>)))
     (fixed_backend 404 (Inl JSONDecodeError)) =
     (500, [(''tip'', ''Error generating tip'')]) \<and>
   gto_tip (Inr (Dict (empty_state\<lparr>hand := Some [''As'', ''Ks'']\<rparr>)))
     (fixed_backend 200 (Inl JSONDecodeError)) =
     (500, [(''tip'', ''Error generating tip'')]) \<and>
   gto_tip (Inl BadRequest) (fixed_backend 200 (Inr (reply_body ''Call.''))) =
     (500, [(''tip'', ''Error generating tip'')])"
proof -
  let ?d = "empty_state\<lparr>hand := Some [''As'', ''Ks'']\<rparr>"
  let ?b = "reply_body ''  /no_think Fold here. ''"
  from build_AsKs obtain p where p: "build_gto_prompt ?d = Inr p" by (rule exE)
  have 1: "gto_tip (Inr (Dict ?d)) (fixed_backend 200 (Inr ?b)) = (200, [(''gto_tip'', ''Fold here.'')])"
    using gto_tip_reply_by_stage [where get_json = "Inr (Dict ?d)"
        and post = "fixed_backend 200 (Inr ?b)" and data = ?d and p = p and sc = 200
        and raw_output = ?b and tip = "''Fold here.''"] p tip_of_reply_fold
    by (simp add: fixed_backend_def)
  have 2: "gto_tip (Inr (Dict ?d)) (fixed_backend 503 (Inr ?b)) =
      (500, [(''tip'', ''Error generating tip'')])"
    using gto_tip_reply_by_stage [where get_json = "Inr (Dict ?d)"
        and post = "fixed_backend 503 (Inr ?b)" and data = ?d and p = p and sc = 503
        and body = "Inr ?b"] p
    by (simp add: fixed_backend_def)
  have 3: "gto_tip (Inr (Dict ?d)) (fixed_backend 404 (Inl JSONDecodeError)) =
      (500, [(''tip'', ''Error generating tip'')])"
    using gto_tip_reply_by_stage [where get_json = "Inr (Dict ?d)"
        and post = "fixed_backend 404 (Inl JSONDecodeError)" and data = ?d and p = p and sc = 404
        and body = "Inl JSONDecodeError"] p
    by (simp add: fixed_backend_def)
  have 4: "gto_tip (Inr (Dict ?d)) (fixed_backend 200 (Inl JSONDecodeError)) =
      (500, [(''tip'', ''Error generating tip'')])"
    using gto_tip_reply_by_stage [where get_json = "Inr (Dict ?d)"
        and post = "fixed_backend 200 (Inl JSONDecodeError)" and data = ?d and p = p and sc = 200
        and e = JSONDecodeError] p
    by (simp add: fixed_backend_def)
  have 5: "gto_tip (Inl BadRequest) (fixed_backend 200 (Inr (reply_body ''Call.''))) =
      (500, [(''tip'', ''Error generating tip'')])"
    using gto_tip_reply_by_stage [where get_json = "Inl BadRequest"
        and post = "fixed_backend 200 (Inr (reply_body ''Call.''))" and e = BadRequest]
    by simp
  from build_AsKs 1 2 3 4 5 show ?thesis by (intro conjI)
qed

text \<open>
  C4 as it was claimed, with every non-2xx status answered by 500, fails: the status
  300 is no 2xx code, and a reply with this status and a body of the documented shape
  is relayed to the caller as a 200 tip.
\<close>

theorem non_2xx_status_relayed:
  "\<not> (200 \<le> (300 :: nat) \<and> (300 :: nat) < 300) \<and>
   gto_tip (Inr (Dict suited_state)) (fixed_backend 300 (Inr (reply_body ''Call.''))) =
     (200, [(''gto_tip'', ''Call.'')]) \<and>
   gto_tip (Inr (Dict suited_state)) (fixed_backend 300 (Inr (reply_body ''Call.''))) \<noteq>
     (500, [(''tip'', ''Error generating tip'')])"
proof -
  have "suited_state = empty_state\<lparr>hand := Some [''As'', ''Ks'']\<rparr>"
    by (simp add: suited_state_def empty_state_def)
  with build_AsKs obtain p where p: "build_gto_prompt suited_state = Inr p" by auto
  have "gto_tip (Inr (Dict suited_state)) (fixed_backend 300 (Inr (reply_body ''Call.''))) =
      (200, [(''gto_tip'', ''Call.'')])"
    using gto_tip_relayed [of suited_state p "fixed_backend 300 (Inr (reply_body ''Call.''))" 300
        "reply_body ''Call.''" "''Call.''"] p tip_of_reply_call
    by (simp add: fixed_backend_def)
  then show ?thesis by simp
qed




end
